theory Spec2Isabelle
  imports Complex_Main "HOL-Library.Char_ord" "HOL-Library.List_Lexorder"
    "HOL-Library.Product_Lexorder" "HOL-Library.Multiset"
begin

section \<open>The FIFO engine of fifo\_ct.py\<close>

text \<open>
  The development embeds the body of \<^verbatim>\<open>fifo_ct\<close> (src/fifo\_ct.py, lines 103 to 183):
  the sort by date, the optional single-asset filter, the loop over the rows with its
  per-asset queues of lots, the fee and counter-asset lookups by trade id, the rounding
  of the record fields and the summary by asset and counter class.

  The input of the model is the frame as it stands after line 102: the canonical columns,
  the rows of the fiscal year, the monetary column already numeric. Reading the CSV,
  renaming its columns and parsing dates and numbers are not modelled.

  Python's floats are modelled by the real numbers, so every sum, product and quotient
  below is exact; statements are about this exact arithmetic. Labels and tickers are
  taken to be ASCII strings: \<^verbatim>\<open>str.upper\<close> and the flag \<^verbatim>\<open>re.I\<close> act on the letters
  a to z only.
\<close>

subsection \<open>Data\<close>

text \<open>
  A row of the frame. \<open>date\<close> is the parsed timestamp, in seconds; \<open>trade_id\<close> is
  \<open>None\<close> for a missing value (pandas reads an empty field as NaN, which is equal to
  nothing, itself included).
\<close>

record fila =
  date :: int
  tipo :: string
  amount :: real
  cur :: string
  eur :: real
  trade_id :: "string option"

text \<open>A lot is the two-element list \<^verbatim>\<open>[qty, coste]\<close> of the source.\<close>

type_synonym lote = "real \<times> real"

text \<open>\<^verbatim>\<open>defaultdict(list)\<close>: every ticker has a queue, empty until something is appended.\<close>

type_synonym inventario = "string \<Rightarrow> lote list"

text \<open>One dictionary appended to \<^verbatim>\<open>filas\<close> (lines 156 to 167).\<close>

record registro =
  fecha :: int
  cripto :: string
  qty :: real
  valor_transm :: real
  coste_fifo :: real
  gastos :: real
  ganancia :: real
  clave :: string


subsection \<open>Strings\<close>

definition letras_min :: string where
  "letras_min = ''abcdefghijklmnopqrstuvwxyz''"

definition letras_may :: string where
  "letras_may = ''ABCDEFGHIJKLMNOPQRSTUVWXYZ''"

definition upper_char :: "char \<Rightarrow> char" where
  "upper_char c = (case map_of (zip letras_min letras_may) c of Some u \<Rightarrow> u | None \<Rightarrow> c)"

definition lower_char :: "char \<Rightarrow> char" where
  "lower_char c = (case map_of (zip letras_may letras_min) c of Some l \<Rightarrow> l | None \<Rightarrow> c)"

text \<open>\<^verbatim>\<open>s.upper()\<close>\<close>

definition upper :: "string \<Rightarrow> string" where
  "upper s = map upper_char s"

text \<open>
  \<^verbatim>\<open>re.match(p, s, re.I)\<close> for a pattern \<open>p\<close> of lower-case letters: the pattern must
  match at the start of \<open>s\<close>, letter case ignored.
\<close>

definition re_match_i :: "string \<Rightarrow> string \<Rightarrow> bool" where
  "re_match_i p s = (map lower_char (take (length p) s) = p)"

definition es_compra :: "string \<Rightarrow> bool" where
  "es_compra s = (re_match_i ''compra'' s \<or> re_match_i ''buy'' s)"

definition es_venta :: "string \<Rightarrow> bool" where
  "es_venta s = (re_match_i ''venta'' s \<or> re_match_i ''sell'' s)"

definition es_fee :: "string \<Rightarrow> bool" where
  "es_fee s = (re_match_i ''comisi'' s \<or> re_match_i ''fee'' s)"

subsection \<open>Numbers\<close>

text \<open>The tolerance \<^verbatim>\<open>1e-12\<close> of lines 134 and 136.\<close>

definition eps :: real where
  "eps = 1 / 10 ^ 12"

text \<open>
  \<^verbatim>\<open>round(x, 2)\<close>: the nearest multiple of one hundredth, a tie going to the even one
  (Python rounds half to even).
\<close>

definition round2 :: "real \<Rightarrow> real" where
  "round2 x =
     (let y = x * 100; f = \<lfloor>y\<rfloor>; d = y - of_int f in
      (if d < 1 / 2 then of_int f
       else if 1 / 2 < d then of_int (f + 1)
       else if even f then of_int f else of_int (f + 1)) / 100)"

subsection \<open>Lookups by trade id (lines 129 to 131 and 147 to 154)\<close>

text \<open>\<^verbatim>\<open>df["trade_id"] == row["trade_id"]\<close> for one row \<open>r\<close> of the frame.\<close>

definition mismo_trade :: "fila \<Rightarrow> fila \<Rightarrow> bool" where
  "mismo_trade row r = (trade_id row \<noteq> None \<and> trade_id r = trade_id row)"

definition fee_eur :: "fila list \<Rightarrow> fila \<Rightarrow> real" where
  "fee_eur df row =
     sum_list (map (\<lambda>r. \<bar>eur r\<bar>)
       (filter (\<lambda>r. mismo_trade row r \<and> es_fee (tipo r)) df))"

definition clave_de :: "fila list \<Rightarrow> fila \<Rightarrow> string" where
  "clave_de df row =
     (if ''EUR'' \<in> set (map (\<lambda>r. upper (cur r)) (filter (mismo_trade row) df))
      then ''F'' else ''N'')"

subsection \<open>The loop over one queue (lines 133 to 145)\<close>

text \<open>
  The state of the \<^verbatim>\<open>while\<close> loop is \<open>(salida, coste_fifo, inventario[cur])\<close>; the
  function returns it as the loop leaves it.
\<close>

function consumir :: "real \<Rightarrow> real \<Rightarrow> lote list \<Rightarrow> real \<times> real \<times> lote list" where
  "consumir salida coste [] = (salida, coste, [])"
| "consumir salida coste ((lot_qty, lot_coste) # resto) =
     (if salida > eps then
        (if lot_qty \<le> salida + eps
         then consumir (salida - lot_qty) (coste + lot_coste) resto
         else consumir 0 (coste + lot_coste * (salida / lot_qty))
                ((lot_qty - salida, lot_coste * (1 - salida / lot_qty)) # resto))
      else (salida, coste, (lot_qty, lot_coste) # resto))"
  by pat_completeness auto
termination
  by (relation "measure (\<lambda>(salida, coste, lots). 2 * length lots + (if salida > eps then 1 else 0))")
    (auto simp: eps_def)

subsection \<open>One row of the ledger (lines 114 to 167)\<close>

definition venta :: "fila list \<Rightarrow> fila \<Rightarrow> real \<Rightarrow> registro" where
  "venta df row coste =
     (let valor = - eur row; fee = fee_eur df row in
      \<lparr> fecha = date row div 86400,
        cripto = upper (cur row),
        qty = - amount row,
        valor_transm = round2 valor,
        coste_fifo = round2 coste,
        gastos = round2 fee,
        ganancia = round2 (valor - coste - fee),
        clave = clave_de df row \<rparr>)"

definition paso ::
  "fila list \<Rightarrow> string set \<Rightarrow> inventario \<times> registro list \<Rightarrow> fila \<Rightarrow> inventario \<times> registro list"
where
  "paso df ignorar st row =
     (let inventario = fst st; filas = snd st; c = upper (cur row) in
      if c \<in> ignorar then st
      else if es_compra (tipo row) then
        (inventario(c := inventario c @ [(amount row, eur row)]), filas)
      else if es_venta (tipo row) then
        (case consumir (- amount row) 0 (inventario c) of
           (salida, coste, lots) \<Rightarrow> (inventario(c := lots), filas @ [venta df row coste]))
      else st)"

subsection \<open>The whole run (lines 103 to 183)\<close>

text \<open>
  \<^verbatim>\<open>df.sort_values("date")\<close>. Rows of equal date keep their order here; pandas does not
  promise that, so nothing below depends on the order of two rows of one date unless it
  says so.
\<close>

definition ordena :: "fila list \<Rightarrow> fila list" where
  "ordena df = sort_key date df"

text \<open>Lines 106 and 107: \<open>None\<close> and the empty string are both false in Python.\<close>

definition filtra :: "string option \<Rightarrow> fila list \<Rightarrow> fila list" where
  "filtra solo_crypto df =
     (case solo_crypto of
        None \<Rightarrow> df
      | Some s \<Rightarrow> if s = [] then df else filter (\<lambda>r. upper (cur r) = upper s) df)"

definition inventario_vacio :: inventario where
  "inventario_vacio = (\<lambda>c. [])"

text \<open>The \<^verbatim>\<open>for\<close> loop over the frame \<open>df\<close>, which the lookups scan as well.\<close>

definition recorre :: "string set \<Rightarrow> fila list \<Rightarrow> inventario \<times> registro list" where
  "recorre ignorar df = foldl (paso df ignorar) (inventario_vacio, []) df"

text \<open>The inventory and the records when the loop of \<^verbatim>\<open>fifo_ct\<close> ends.\<close>

definition fifo_estado ::
  "string set \<Rightarrow> string option \<Rightarrow> fila list \<Rightarrow> inventario \<times> registro list" where
  "fifo_estado ignorar solo_crypto rows = recorre ignorar (filtra solo_crypto (ordena rows))"




subsection \<open>Notions used to state the properties\<close>

text \<open>The rows for which the loop reaches line 126: not ignored, not a purchase, a sale.\<close>

definition es_venta_procesada :: "string set \<Rightarrow> fila \<Rightarrow> bool" where
  "es_venta_procesada ignorar r =
     (upper (cur r) \<notin> ignorar \<and> \<not> es_compra (tipo r) \<and> es_venta (tipo r))"

definition ventas :: "string set \<Rightarrow> fila list \<Rightarrow> fila list" where
  "ventas ignorar df = filter (es_venta_procesada ignorar) df"

text \<open>A row written in one line, for the concrete ledgers below.\<close>

definition fila_de :: "int \<Rightarrow> string \<Rightarrow> string \<Rightarrow> real \<Rightarrow> real \<Rightarrow> string option \<Rightarrow> fila" where
  "fila_de t etiqueta ticker cantidad valor tid =
     \<lparr> date = t, tipo = etiqueta, amount = cantidad, cur = ticker, eur = valor, trade_id = tid \<rparr>"

text \<open>The state of the \<^verbatim>\<open>for\<close> loop after the first \<open>n\<close> rows of the frame.\<close>

definition recorre_hasta :: "nat \<Rightarrow> string set \<Rightarrow> fila list \<Rightarrow> inventario \<times> registro list" where
  "recorre_hasta n ignorar df = foldl (paso df ignorar) (inventario_vacio, []) (take n df)"







section \<open>Properties\<close>

subsection \<open>The loop over one queue\<close>

lemma eps_pos: "0 < eps"
  by (simp add: eps_def)

lemma consumir_cero: "s \<le> eps \<Longrightarrow> consumir s c lots = (s, c, lots)"
  by (cases lots) auto

lemma consumir_parte:
  assumes "eps < s" "s + eps < q"
  shows "consumir s c ((q, lc) # resto) =
           (0, c + lc * (s / q), (q - s, lc * (1 - s / q)) # resto)"
  using assms eps_pos by simp

lemma consumir_entero:
  assumes "eps < s" "q \<le> s + eps"
  shows "consumir s c ((q, lc) # resto) = consumir (s - q) (c + lc) resto"
  using assms by simp

lemmas cadenas = upper_def upper_char_def lower_char_def letras_min_def letras_may_def
  es_compra_def es_venta_def es_fee_def re_match_i_def

lemma etiquetas:
  "es_compra ''Buy''" "\<not> es_venta ''Buy''" "\<not> es_fee ''Buy''"
  "\<not> es_compra ''Sell''" "es_venta ''Sell''" "\<not> es_fee ''Sell''"
  "\<not> es_compra ''Fee''" "\<not> es_venta ''Fee''" "es_fee ''Fee''"
  "upper ''BTC'' = ''BTC''" "upper ''ETH'' = ''ETH''" "upper ''EUR'' = ''EUR''"
  by (simp_all add: cadenas)

lemmas calculo = fifo_estado_def ordena_def filtra_def recorre_def fila_de_def paso_def
  inventario_vacio_def eps_def venta_def fee_eur_def clave_de_def mismo_trade_def round2_def
  Let_def etiquetas

text \<open>
  C4. While the loop runs (the need is above the tolerance) and the front lot is larger
  than the need by more than the tolerance, the loop adds the fraction
  \<open>salida / lot_qty\<close> of the lot's cost to the matched cost, leaves the lot at the front
  with its quantity and its cost both reduced by that fraction, and sets the need to zero.
  In particular a purchase of 2 units for 100 followed by a sale of 1 unit gives a matched
  cost of 50 and leaves the lot (1, 50).
\<close>

theorem consumo_parcial:
  "(eps < salida \<and> salida + eps < lot_qty \<longrightarrow>
      consumir salida coste ((lot_qty, lot_coste) # resto) =
        (0, coste + lot_coste * (salida / lot_qty),
         (lot_qty - lot_qty * (salida / lot_qty),
          lot_coste - lot_coste * (salida / lot_qty)) # resto))
   \<and> fst (fifo_estado {''EUR''} None
          [fila_de 1 ''Buy'' ''ETH'' 2 100 None,
           fila_de 2 ''Sell'' ''ETH'' (- 1) (- 80) None]) ''ETH'' = [(1, 50)]
   \<and> map coste_fifo (snd (fifo_estado {''EUR''} None
          [fila_de 1 ''Buy'' ''ETH'' 2 100 None,
           fila_de 2 ''Sell'' ''ETH'' (- 1) (- 80) None])) = [50]"
proof (intro conjI impI)
  assume a: "eps < salida \<and> salida + eps < lot_qty"
  with eps_pos have "lot_qty \<noteq> 0" by simp
  then have q: "lot_qty - lot_qty * (salida / lot_qty) = lot_qty - salida" by simp
  have c: "lot_coste - lot_coste * (salida / lot_qty) = lot_coste * (1 - salida / lot_qty)"
    by (simp add: right_diff_distrib)
  from a have "consumir salida coste ((lot_qty, lot_coste) # resto) =
      (0, coste + lot_coste * (salida / lot_qty),
       (lot_qty - salida, lot_coste * (1 - salida / lot_qty)) # resto)"
    by (intro consumir_parte) simp_all
  then show "consumir salida coste ((lot_qty, lot_coste) # resto) =
        (0, coste + lot_coste * (salida / lot_qty),
         (lot_qty - lot_qty * (salida / lot_qty),
          lot_coste - lot_coste * (salida / lot_qty)) # resto)"
    by (simp only: q c)
next
  show "fst (fifo_estado {''EUR''} None
          [fila_de 1 ''Buy'' ''ETH'' 2 100 None,
           fila_de 2 ''Sell'' ''ETH'' (- 1) (- 80) None]) ''ETH'' = [(1, 50)]"
    by (simp add: calculo)
next
  show "map coste_fifo (snd (fifo_estado {''EUR''} None
          [fila_de 1 ''Buy'' ''ETH'' 2 100 None,
           fila_de 2 ''Sell'' ''ETH'' (- 1) (- 80) None])) = [50]"
    by (simp add: calculo)
qed

theorem consumo_parcial_witness:
  "eps < 3 \<and> 3 + eps < 4 \<and> consumir 3 0 [(4, 10)] = (0, 15 / 2, [(1, 5 / 2)])"
proof -
  have h: "eps < 3 \<and> 3 + eps < 4" by (simp add: eps_def)
  have "consumir 3 0 [(4, 10)] = (0, 0 + 10 * (3 / 4), [(4 - 4 * (3 / 4), 10 - 10 * (3 / 4))])"
    by (rule consumo_parcial [of 3 4 0 10 "[]", THEN conjunct1, THEN mp, OF h])
  also have "\<dots> = (0, 15 / 2, [(1, 5 / 2)])" by simp
  finally show ?thesis using h by simp
qed

text \<open>
  C9. A lot of quantity 1.0000000000001 met by a need of 1.0 is within the tolerance of
  the need: the loop takes the lot whole, adds its full cost, removes it from the queue
  and stops, the need being then below the tolerance. Nothing of the lot stays behind.
  The same through a whole run: the queue of the asset ends empty and the record carries
  the full cost of the lot.
\<close>

theorem epsilon_drena_lote:
  "consumir 1 coste ((1.0000000000001, lot_coste) # resto) =
     (1 - 1.0000000000001, coste + lot_coste, resto)
   \<and> fst (fifo_estado {''EUR''} None
          [fila_de 1 ''Buy'' ''ETH'' 1.0000000000001 100 None,
           fila_de 2 ''Sell'' ''ETH'' (- 1) (- 120) None]) ''ETH'' = []
   \<and> map coste_fifo (snd (fifo_estado {''EUR''} None
          [fila_de 1 ''Buy'' ''ETH'' 1.0000000000001 100 None,
           fila_de 2 ''Sell'' ''ETH'' (- 1) (- 120) None])) = [100]"
proof (intro conjI)
  have "eps < 1" "(1.0000000000001 :: real) \<le> 1 + eps" "1 - 1.0000000000001 \<le> eps"
    by (simp_all add: eps_def)
  then show "consumir 1 coste ((1.0000000000001, lot_coste) # resto) =
     (1 - 1.0000000000001, coste + lot_coste, resto)"
    by (simp only: consumir_entero consumir_cero)
next
  show "fst (fifo_estado {''EUR''} None
          [fila_de 1 ''Buy'' ''ETH'' 1.0000000000001 100 None,
           fila_de 2 ''Sell'' ''ETH'' (- 1) (- 120) None]) ''ETH'' = []"
    by (simp add: calculo)
next
  show "map coste_fifo (snd (fifo_estado {''EUR''} None
          [fila_de 1 ''Buy'' ''ETH'' 1.0000000000001 100 None,
           fila_de 2 ''Sell'' ''ETH'' (- 1) (- 120) None])) = [100]"
    by (simp add: calculo)
qed

subsection \<open>The scenario of the specification\<close>

text \<open>
  C1. The ledger of four rows: buy 1 BTC for 100 at t=1, buy 1 BTC for 300 at t=2, sell
  1.5 BTC for 450 under trade id T1 at t=3, and a fee row of value 5 under T1 at t=3.
  The run gives exactly one record, with matched cost 250, fee 5 and gain 195, and leaves
  the one lot (0.5, 150) in the queue of BTC. The two rows of t=3 are given in both
  orders, the sort leaving rows of one date as they come. A sale carries its quantity and
  its value with a minus sign, as the source expects them (lines 126 and 127); a fee row
  counts by the absolute value of its amount in EUR (line 131).
\<close>

theorem escenario_completo:
  "fifo_estado {''EUR''} None
     [fila_de 1 ''Buy'' ''BTC'' 1 100 None,
      fila_de 2 ''Buy'' ''BTC'' 1 300 None,
      fila_de 3 ''Sell'' ''BTC'' (- 1.5) (- 450) (Some ''T1''),
      fila_de 3 ''Fee'' ''BTC'' 0 5 (Some ''T1'')]
   = fifo_estado {''EUR''} None
     [fila_de 1 ''Buy'' ''BTC'' 1 100 None,
      fila_de 2 ''Buy'' ''BTC'' 1 300 None,
      fila_de 3 ''Fee'' ''BTC'' 0 5 (Some ''T1''),
      fila_de 3 ''Sell'' ''BTC'' (- 1.5) (- 450) (Some ''T1'')]
   \<and> snd (fifo_estado {''EUR''} None
     [fila_de 1 ''Buy'' ''BTC'' 1 100 None,
      fila_de 2 ''Buy'' ''BTC'' 1 300 None,
      fila_de 3 ''Sell'' ''BTC'' (- 1.5) (- 450) (Some ''T1''),
      fila_de 3 ''Fee'' ''BTC'' 0 5 (Some ''T1'')])
     = [\<lparr> fecha = 0, cripto = ''BTC'', qty = 1.5, valor_transm = 450, coste_fifo = 250,
           gastos = 5, ganancia = 195, clave = ''N'' \<rparr>]
   \<and> fst (fifo_estado {''EUR''} None
     [fila_de 1 ''Buy'' ''BTC'' 1 100 None,
      fila_de 2 ''Buy'' ''BTC'' 1 300 None,
      fila_de 3 ''Sell'' ''BTC'' (- 1.5) (- 450) (Some ''T1''),
      fila_de 3 ''Fee'' ''BTC'' 0 5 (Some ''T1'')]) ''BTC'' = [(0.5, 150)]"
  by (simp add: calculo)

subsection \<open>More on the loop over one queue\<close>


lemma consumir_pos:
  "\<forall>l\<in>set lots. 0 < fst l \<Longrightarrow> \<forall>l\<in>set (snd (snd (consumir s c lots))). 0 < fst l"
proof (induction s c lots rule: consumir.induct)
  case (1 salida coste)
  then show ?case by simp
next
  case (2 salida coste lot_qty lot_coste resto)
  show ?case
  proof (cases "eps < salida")
    case False
    with "2.prems" show ?thesis by simp
  next
    case True
    show ?thesis
    proof (cases "lot_qty \<le> salida + eps")
      case entero: True
      with True "2.IH"(1) "2.prems" show ?thesis by simp
    next
      case parte: False
      with True eps_pos "2.prems" show ?thesis by (simp add: consumir_cero)
    qed
  qed
qed



subsection \<open>Rounding\<close>



lemma round2_0: "round2 0 = 0"
  by (simp add: round2_def)

subsection \<open>One row\<close>

lemma paso_venta:
  assumes "es_venta_procesada ignorar row"
  shows "paso df ignorar (iv, filas) row =
           (iv(upper (cur row) := snd (snd (consumir (- amount row) 0 (iv (upper (cur row)))))),
            filas @ [venta df row (fst (snd (consumir (- amount row) 0 (iv (upper (cur row))))))])"
  using assms by (simp add: paso_def es_venta_procesada_def Let_def split: prod.splits)

lemma paso_no_venta:
  assumes "\<not> es_venta_procesada ignorar row"
  shows "snd (paso df ignorar (iv, filas) row) = filas"
  using assms by (auto simp: paso_def es_venta_procesada_def Let_def)

lemma paso_compra:
  assumes "upper (cur row) \<notin> ignorar" "es_compra (tipo row)"
  shows "paso df ignorar (iv, filas) row =
           (iv(upper (cur row) := iv (upper (cur row)) @ [(amount row, eur row)]), filas)"
  using assms by (simp add: paso_def Let_def)

lemma paso_otro:
  assumes "upper (cur row) \<in> ignorar \<or> (\<not> es_compra (tipo row) \<and> \<not> es_venta (tipo row))"
  shows "paso df ignorar st row = st"
  using assms by (auto simp: paso_def Let_def)

lemma paso_casos:
  obtains (ignorada) "upper (cur row) \<in> ignorar"
  | (compra) "upper (cur row) \<notin> ignorar" "es_compra (tipo row)"
  | (venta) "es_venta_procesada ignorar row"
  | (otra) "upper (cur row) \<notin> ignorar" "\<not> es_compra (tipo row)" "\<not> es_venta (tipo row)"
  unfolding es_venta_procesada_def by blast

subsection \<open>The records of a run\<close>

text \<open>One record for each sale the loop reaches, in the order of the rows.\<close>

lemma recorre_registros:
  "\<exists>ds. snd (foldl (paso df ignorar) (iv, filas) rs) = filas @ ds \<and>
        list_all2 (\<lambda>r d. \<exists>c. d = venta df r c) (ventas ignorar rs) ds"
proof (induction rs arbitrary: iv filas)
  case Nil
  then show ?case by (simp add: ventas_def)
next
  case (Cons r rs)
  show ?case
  proof (cases "es_venta_procesada ignorar r")
    case True
    let ?c = "fst (snd (consumir (- amount r) 0 (iv (upper (cur r)))))"
    let ?iv = "iv(upper (cur r) := snd (snd (consumir (- amount r) 0 (iv (upper (cur r))))))"
    from Cons.IH[of ?iv "filas @ [venta df r ?c]"] obtain ds where
      ds: "snd (foldl (paso df ignorar) (?iv, filas @ [venta df r ?c]) rs) = (filas @ [venta df r ?c]) @ ds"
          "list_all2 (\<lambda>r d. \<exists>c. d = venta df r c) (ventas ignorar rs) ds" by blast
    show ?thesis
      using True ds by (intro exI[of _ "venta df r ?c # ds"]) (auto simp: paso_venta ventas_def)
  next
    case False
    obtain iv' where p: "paso df ignorar (iv, filas) r = (iv', filas)"
      using paso_no_venta[OF False, of df iv filas] by (cases "paso df ignorar (iv, filas) r") auto
    from Cons.IH[of iv' filas] False p show ?thesis by (simp add: ventas_def)
  qed
qed

lemma detalle_ventas:
  "list_all2 (\<lambda>r d. \<exists>c. d = venta df r c) (ventas ignorar df) (snd (recorre ignorar df))"
  using recorre_registros[of df ignorar inventario_vacio "[]" df] by (auto simp: recorre_def)

subsection \<open>Lots stay positive\<close>

lemma paso_pos:
  assumes "es_compra (tipo r) \<longrightarrow> 0 < amount r" "\<forall>c. \<forall>l\<in>set (iv c). 0 < fst l"
  shows "\<forall>c. \<forall>l\<in>set (fst (paso df ignorar (iv, filas) r) c). 0 < fst l"
proof (cases r ignorar rule: paso_casos)
  case ignorada
  with assms(2) show ?thesis by (simp add: paso_otro)
next
  case compra
  with assms show ?thesis by (auto simp: paso_compra)
next
  case venta
  with assms(2) consumir_pos[of "iv (upper (cur r))" "- amount r" 0]
  show ?thesis by (auto simp: paso_venta)
next
  case otra
  with assms(2) show ?thesis by (simp add: paso_otro)
qed

lemma foldl_paso_pos:
  "\<forall>r\<in>set rs. es_compra (tipo r) \<longrightarrow> 0 < amount r \<Longrightarrow>
   \<forall>c. \<forall>l\<in>set (iv c). 0 < fst l \<Longrightarrow>
   \<forall>c. \<forall>l\<in>set (fst (foldl (paso df ignorar) (iv, filas) rs) c). 0 < fst l"
proof (induction rs arbitrary: iv filas)
  case Nil
  then show ?case by simp
next
  case (Cons r rs)
  obtain iv' filas' where p: "paso df ignorar (iv, filas) r = (iv', filas')"
    by (cases "paso df ignorar (iv, filas) r")
  from Cons.prems have "es_compra (tipo r) \<longrightarrow> 0 < amount r" by simp
  from paso_pos[OF this Cons.prems(2), of df ignorar filas] p
  have "\<forall>c. \<forall>l\<in>set (iv' c). 0 < fst l" by simp
  moreover from Cons.prems have "\<forall>r\<in>set rs. es_compra (tipo r) \<longrightarrow> 0 < amount r" by simp
  ultimately show ?case using Cons.IH[of iv' filas'] p by simp
qed

lemma set_filtra: "set (filtra solo df) \<subseteq> set df"
  by (auto simp: filtra_def split: option.splits)

lemma set_ordena: "set (ordena df) = set df"
  by (simp add: ordena_def)

text \<open>
  C6. If every purchase row has a positive quantity, then after any number of rows of
  the run every lot in every queue has a positive quantity. Inside the loop over one
  queue the same holds at each turn, and a front lot that the need covers up to the
  tolerance is taken out of the queue in that very turn, not left with a quantity of zero
  or below.
\<close>

theorem lotes_positivos:
  "((\<forall>r\<in>set rows. es_compra (tipo r) \<longrightarrow> 0 < amount r) \<longrightarrow>
      (\<forall>l\<in>set (fst (recorre_hasta n ignorar (filtra solo (ordena rows))) c). 0 < fst l))
   \<and> ((\<forall>l\<in>set lots. 0 < fst l) \<longrightarrow>
      (\<forall>l\<in>set (snd (snd (consumir s k lots))). 0 < fst l))
   \<and> (eps < s \<and> q \<le> s + eps \<longrightarrow>
      consumir s k ((q, lc) # resto) = consumir (s - q) (k + lc) resto)"
proof (intro conjI impI)
  assume a: "\<forall>r\<in>set rows. es_compra (tipo r) \<longrightarrow> 0 < amount r"
  let ?df = "filtra solo (ordena rows)"
  have "set (take n ?df) \<subseteq> set rows"
    using set_take_subset[of n ?df] set_filtra[of solo "ordena rows"] set_ordena[of rows]
    by blast
  with a have "\<forall>r\<in>set (take n ?df). es_compra (tipo r) \<longrightarrow> 0 < amount r" by blast
  from foldl_paso_pos[OF this, of inventario_vacio ?df ignorar "[]"]
  show "\<forall>l\<in>set (fst (recorre_hasta n ignorar ?df) c). 0 < fst l"
    by (simp add: recorre_hasta_def inventario_vacio_def)
next
  assume "\<forall>l\<in>set lots. 0 < fst l"
  then show "\<forall>l\<in>set (snd (snd (consumir s k lots))). 0 < fst l"
    by (rule consumir_pos)
next
  assume "eps < s \<and> q \<le> s + eps"
  then show "consumir s k ((q, lc) # resto) = consumir (s - q) (k + lc) resto"
    by (simp add: consumir_entero)
qed

theorem lotes_positivos_witness:
  "fst (recorre_hasta 2 {''EUR''} (filtra None (ordena
      [fila_de 1 ''Buy'' ''ETH'' 2 100 None,
       fila_de 2 ''Sell'' ''ETH'' (- 2) (- 80) None,
       fila_de 3 ''Buy'' ''ETH'' 1 70 None]))) ''ETH'' = []
   \<and> fst (recorre_hasta 3 {''EUR''} (filtra None (ordena
      [fila_de 1 ''Buy'' ''ETH'' 2 100 None,
       fila_de 2 ''Sell'' ''ETH'' (- 2) (- 80) None,
       fila_de 3 ''Buy'' ''ETH'' 1 70 None]))) ''ETH'' = [(1, 70)]
   \<and> list_all (\<lambda>l. 0 < fst l) (fst (recorre_hasta 3 {''EUR''} (filtra None (ordena
      [fila_de 1 ''Buy'' ''ETH'' 2 100 None,
       fila_de 2 ''Sell'' ''ETH'' (- 2) (- 80) None,
       fila_de 3 ''Buy'' ''ETH'' 1 70 None]))) ''ETH'')
   \<and> snd (snd (consumir 2 0 [(2, 100), (1, 70)])) = [(1, 70)]"
proof -
  let ?rows = "[fila_de 1 ''Buy'' ''ETH'' 2 100 None,
       fila_de 2 ''Sell'' ''ETH'' (- 2) (- 80) None,
       fila_de 3 ''Buy'' ''ETH'' 1 70 None]"
  have h: "\<forall>r\<in>set ?rows. es_compra (tipo r) \<longrightarrow> 0 < amount r"
    by (simp add: fila_de_def etiquetas)
  have "\<forall>l\<in>set (fst (recorre_hasta 3 {''EUR''} (filtra None (ordena ?rows))) ''ETH''). 0 < fst l"
    using lotes_positivos[of ?rows 3 "{''EUR''}" None "''ETH''" "[]" 0 0 0 0 "[]"] h by blast
  then have 3: "list_all (\<lambda>l. 0 < fst l)
      (fst (recorre_hasta 3 {''EUR''} (filtra None (ordena ?rows))) ''ETH'')"
    by (simp add: list_all_iff)
  have 1: "fst (recorre_hasta 2 {''EUR''} (filtra None (ordena ?rows))) ''ETH'' = []"
    by (simp add: recorre_hasta_def calculo)
  have 2: "fst (recorre_hasta 3 {''EUR''} (filtra None (ordena ?rows))) ''ETH'' = [(1, 70)]"
    by (simp add: recorre_hasta_def calculo)
  have 4: "snd (snd (consumir 2 0 [(2, 100), (1, 70)])) = [(1, 70)]"
    by (simp add: eps_def)
  from 1 2 3 4 show ?thesis by blast
qed

subsection \<open>Sales beyond the inventory\<close>



subsection \<open>Sales with no linked rows\<close>

lemma fee_eur_cero:
  "\<forall>r'\<in>set df. mismo_trade r r' \<longrightarrow> \<not> es_fee (tipo r') \<Longrightarrow> fee_eur df r = 0"
proof -
  assume "\<forall>r'\<in>set df. mismo_trade r r' \<longrightarrow> \<not> es_fee (tipo r')"
  then have "filter (\<lambda>r'. mismo_trade r r' \<and> es_fee (tipo r')) df = []"
    by (simp add: filter_empty_conv)
  then show ?thesis by (simp add: fee_eur_def)
qed

lemma clave_de_N:
  "\<forall>r'\<in>set df. mismo_trade r r' \<longrightarrow> upper (cur r') \<noteq> ''EUR'' \<Longrightarrow> clave_de df r = ''N''"
  by (auto simp: clave_de_def)

lemma mismo_trade_None: "trade_id r = None \<Longrightarrow> \<not> mismo_trade r r'"
  by (simp add: mismo_trade_def)

text \<open>
  C8. The records of a run stand one to one, in order, against the sales the loop
  reaches. Whenever the trade id of such a sale is missing, or no row of the ledger with
  that trade id is a fee row or carries the ticker EUR, the record of the sale has a fee of
  zero and the counter class N (non-fiat).
\<close>

theorem venta_sin_enlace:
  "list_all2
     (\<lambda>r d. (trade_id r = None \<or>
               (\<forall>r'\<in>set rows. mismo_trade r r' \<longrightarrow>
                   \<not> es_fee (tipo r') \<and> upper (cur r') \<noteq> ''EUR''))
             \<longrightarrow> gastos d = 0 \<and> clave d = ''N'')
     (ventas ignorar (filtra solo (ordena rows)))
     (snd (fifo_estado ignorar solo rows))"
proof -
  let ?df = "filtra solo (ordena rows)"
  have sub: "set ?df \<subseteq> set rows"
    using set_filtra[of solo "ordena rows"] set_ordena[of rows] by blast
  have paso: "gastos d = 0 \<and> clave d = ''N''"
    if d: "\<exists>c. d = venta ?df r c"
      and h: "trade_id r = None \<or>
               (\<forall>r'\<in>set rows. mismo_trade r r' \<longrightarrow>
                   \<not> es_fee (tipo r') \<and> upper (cur r') \<noteq> ''EUR'')"
    for r d
  proof -
    from h sub have "\<forall>r'\<in>set ?df. mismo_trade r r' \<longrightarrow>
        \<not> es_fee (tipo r') \<and> upper (cur r') \<noteq> ''EUR''"
      using mismo_trade_None[of r] by blast
    then have "fee_eur ?df r = 0" "clave_de ?df r = ''N''"
      by (simp_all add: fee_eur_cero clave_de_N)
    with d show ?thesis by (auto simp: venta_def Let_def round2_0)
  qed
  have "list_all2 (\<lambda>r d. \<exists>c. d = venta ?df r c) (ventas ignorar ?df)
          (snd (fifo_estado ignorar solo rows))"
    using detalle_ventas[of ?df ignorar] by (simp add: fifo_estado_def)
  then show ?thesis
    by (rule list_all2_mono) (use paso in blast)
qed

theorem venta_sin_enlace_witness:
  "map (\<lambda>d. (gastos d, clave d)) (snd (fifo_estado {''EUR''} None
     [fila_de 1 ''Buy'' ''ETH'' 2 100 None,
      fila_de 2 ''Sell'' ''ETH'' (- 1) (- 80) (Some ''T9''),
      fila_de 2 ''Fee'' ''EUR'' (- 1) (- 1) (Some ''T1''),
      fila_de 3 ''Sell'' ''ETH'' (- 1) (- 90) None]))
   = [(0, ''N''), (0, ''N'')]"
proof -
  let ?rows = "[fila_de 1 ''Buy'' ''ETH'' 2 100 None,
      fila_de 2 ''Sell'' ''ETH'' (- 1) (- 80) (Some ''T9''),
      fila_de 2 ''Fee'' ''EUR'' (- 1) (- 1) (Some ''T1''),
      fila_de 3 ''Sell'' ''ETH'' (- 1) (- 90) None]"
  have v: "ventas {''EUR''} (filtra None (ordena ?rows)) =
      [fila_de 2 ''Sell'' ''ETH'' (- 1) (- 80) (Some ''T9''),
       fila_de 3 ''Sell'' ''ETH'' (- 1) (- 90) None]"
    by (simp add: ventas_def es_venta_procesada_def filtra_def ordena_def fila_de_def etiquetas)
  have h1: "\<forall>r'\<in>set ?rows. mismo_trade (fila_de 2 ''Sell'' ''ETH'' (- 1) (- 80) (Some ''T9'')) r' \<longrightarrow>
                   \<not> es_fee (tipo r') \<and> upper (cur r') \<noteq> ''EUR''"
    by (simp add: mismo_trade_def fila_de_def etiquetas)
  have h2: "trade_id (fila_de 3 ''Sell'' ''ETH'' (- 1) (- 90) None) = None"
    by (simp add: fila_de_def)
  obtain d1 d2 where ds: "snd (fifo_estado {''EUR''} None ?rows) = [d1, d2]"
    using venta_sin_enlace[of ?rows "{''EUR''}" None] unfolding v
    by (auto simp: list_all2_Cons1)
  from venta_sin_enlace[of ?rows "{''EUR''}" None] h1 h2
  have "gastos d1 = 0 \<and> clave d1 = ''N''" "gastos d2 = 0 \<and> clave d2 = ''N''"
    unfolding v ds by auto
  with ds show ?thesis by simp
qed

subsection \<open>Conservation of cost\<close>












subsection \<open>The order of the rows\<close>




subsection \<open>The fee of a sale\<close>





subsection \<open>Rounding of the records and of the summary\<close>





end
